theory Spec2Isabelle
  imports Main
begin

section \<open>Python values, dictionaries, exceptions and the event trace\<close>

text \<open>
  The values that travel through keyword arguments and configuration files. Extra
  command-line arguments always arrive as strings (\<open>PyStr\<close>).
\<close>

datatype pyval = PyNone | PyBool bool | PyInt int | PyStr string | PyPath "string list"

text \<open>
  A Python \<open>dict\<close> keeps its keys in insertion order and holds every key once. It is
  modelled as an association list; \<open>dict_set\<close> is the assignment \<open>d[k] = v\<close>
  (overwrite in place when the key is present, append otherwise), \<open>dict_get\<close> is
  \<open>d.get(k, None)\<close>, and \<open>dict_merge a b\<close> is the display \<open>{**a, **b}\<close>.
\<close>

type_synonym 'v dict = "(string \<times> 'v) list"

primrec dict_set :: "'v dict \<Rightarrow> string \<Rightarrow> 'v \<Rightarrow> 'v dict" where
  "dict_set [] k v = [(k, v)]"
| "dict_set (p # ps) k v = (if fst p = k then (k, v) # ps else p # dict_set ps k v)"

definition dict_get :: "'v dict \<Rightarrow> string \<Rightarrow> 'v option" where
  "dict_get d k = map_of d k"

definition dict_keys :: "'v dict \<Rightarrow> string list" where
  "dict_keys d = map fst d"

definition dict_merge :: "'v dict \<Rightarrow> 'v dict \<Rightarrow> 'v dict" where
  "dict_merge a b = fold (\<lambda>(k, v) acc. dict_set acc k v) b a"

type_synonym path = "string list"
type_synonym config = "pyval dict"
type_synonym kwargs = "pyval dict"

text \<open>
  Exceptions are values: the class and the message. Only subclasses of Python's
  \<open>Exception\<close> are modelled; \<open>OtherError\<close> stands for whatever an external
  collaborator (git, a plugin body, the configuration codec) raises.
\<close>

datatype exn_class =
    FileNotFoundError | ImportError | TypeError | AttributeError | IndexError
  | RunCommandError | NoSuchPipelineError | NoSuchDeploymentError
  | OtherError

datatype exn = Exn (exn_kind: exn_class) (exn_message: string)

text \<open>
  What an operation does besides returning is recorded as the list of events it emits,
  in order: log records, plugin loads, and every call of a plugin operation together with
  the arguments it received.
\<close>

datatype event =
    LogInfo string
  | LogWarning string
  | LogError string
  | LoadPipeline string
  | Invoke string string string path config kwargs
  | ComposeCall string "path list" "config list" kwargs
  | UpdateAttempt string

definition quoted :: "string \<Rightarrow> string" where
  "quoted s = CHR 0x22 # s @ [CHR 0x22]"

section \<open>Merging extra key=value arguments (\<open>get_merged_keyword_args\<close>)\<close>

text \<open>
  \<open>str.split(sep)\<close> for a one-character separator: the text is cut at every
  occurrence of the separator, and empty pieces are kept.
\<close>

fun py_split :: "char \<Rightarrow> string \<Rightarrow> string list" where
  "py_split c [] = [[]]"
| "py_split c (x # xs) =
     (if x = c then [] # py_split c xs
      else (case py_split c xs of [] \<Rightarrow> [[x]] | p # ps \<Rightarrow> (x # p) # ps))"

text \<open>
  The loop over \<open>extra_args\<close>: an argument that splits into exactly two parts is stored
  in \<open>extra_dict\<close>, anything else is reported with \<open>logger.warning\<close>. The function
  returns the dictionary together with the warnings emitted.
\<close>

definition invalid_extra_msg :: "string \<Rightarrow> string" where
  "invalid_extra_msg arg = ''Invalid extra argument provided: '' @ quoted arg"

fun extra_args_loop :: "string list \<Rightarrow> pyval dict \<Rightarrow> pyval dict \<times> event list" where
  "extra_args_loop [] extra_dict = (extra_dict, [])"
| "extra_args_loop (arg # rest) extra_dict =
     (let parts = py_split (CHR ''='') arg in
      if length parts = 2
      then extra_args_loop rest (dict_set extra_dict (parts ! 0) (PyStr (parts ! 1)))
      else (let (d, evs) = extra_args_loop rest extra_dict
            in (d, LogWarning (invalid_extra_msg arg) # evs)))"

definition get_merged_keyword_args ::
  "kwargs \<Rightarrow> string list option \<Rightarrow> kwargs \<times> event list" where
  "get_merged_keyword_args kwargs extra_args =
     (let (extra_dict, evs) =
        (case extra_args of
           None \<Rightarrow> ([], [])
         | Some args \<Rightarrow> if args = [] then ([], []) else extra_args_loop args [])
      in (dict_merge kwargs extra_dict, evs))"

text \<open>
  The specification's reading of one entry, written independently of \<open>py_split\<close>: an
  entry is well formed when it holds exactly one \<open>=\<close>; its key is the text before the
  first \<open>=\<close> and its value the text after it.
\<close>

definition well_formed_extra :: "string \<Rightarrow> bool" where
  "well_formed_extra arg = (count_list arg (CHR ''='') = 1)"

definition extra_key :: "string \<Rightarrow> string" where
  "extra_key arg = takeWhile (\<lambda>c. c \<noteq> CHR ''='') arg"

definition extra_value :: "string \<Rightarrow> string" where
  "extra_value arg = tl (dropWhile (\<lambda>c. c \<noteq> CHR ''='') arg)"

definition extra_dict_of :: "string list \<Rightarrow> pyval dict" where
  "extra_dict_of args =
     fold (\<lambda>arg d. dict_set d (extra_key arg) (PyStr (extra_value arg)))
          (filter well_formed_extra args) []"

definition args_of :: "string list option \<Rightarrow> string list" where
  "args_of extra_args = (case extra_args of None \<Rightarrow> [] | Some args \<Rightarrow> args)"

section \<open>The project wrapper (\<open>ProjectWrapper\<close>)\<close>

text \<open>
  A loaded plugin instance, as \<open>run_command\<close> and \<open>compose\<close> use it: attributes
  are looked up by name (\<open>hasattr\<close>, \<open>getattr\<close>). An attribute is either a method taking
  \<open>(data_dir, config, **kwargs)\<close>, which returns a value or raises, or a plain value,
  whose call raises \<open>TypeError\<close>. \<open>run_compose\<close> takes the two ordered lists.
\<close>

datatype attr = Method "path \<Rightarrow> config \<Rightarrow> kwargs \<Rightarrow> exn + pyval" | Field pyval

record plugin =
  attrs :: "attr dict"
  run_compose :: "path list \<Rightarrow> config list \<Rightarrow> kwargs \<Rightarrow> exn + pyval"

text \<open>
  The modules \<open>marimba.wrappers.pipeline\<close> and \<open>marimba.wrappers.deployment\<close> that
  \<open>project.py\<close> imports are not among the sources. What their methods give is a
  parameter of the model: \<open>pw_load_pipeline\<close> is the outcome of \<open>load_pipeline()\<close>,
  \<open>pw_update\<close> the outcome of \<open>update()\<close>, \<open>dw_data_dir\<close> is
  \<open>get_pipeline_data_dir\<close> and \<open>dw_load_config\<close> the outcome of \<open>load_config()\<close>.
\<close>

record pipeline_ops =
  pw_load_pipeline :: "exn + plugin"
  pw_update :: "exn + unit"

record deployment_wrapper =
  dw_data_dir :: "string \<Rightarrow> path"
  dw_load_config :: "exn + config"

record project =
  pipeline_wrappers :: "pipeline_ops dict"
  deployment_wrappers :: "deployment_wrapper dict"

definition no_instrument_msg :: "string \<Rightarrow> string" where
  "no_instrument_msg pipeline_name =
     ''Instrument '' @ quoted pipeline_name @ '' does not exist within the project.''"

definition no_deployment_msg :: "string \<Rightarrow> string" where
  "no_deployment_msg deployment_name =
     ''Deployment '' @ quoted deployment_name @ '' does not exist within the project.''"

definition no_command_msg :: "string \<Rightarrow> string \<Rightarrow> string" where
  "no_command_msg command_name run_pipeline_name =
     ''Command '' @ quoted command_name @ '' does not exist for instrument ''
       @ quoted run_pipeline_name @ ''.''"

text \<open>
  The dictionary comprehension that loads one instance per selected wrapper, in the
  order of the dictionary; the first load that raises ends it.
\<close>

fun load_pipelines :: "pipeline_ops dict \<Rightarrow> plugin dict \<Rightarrow> (exn + plugin dict) \<times> event list" where
  "load_pipelines [] acc = (Inr acc, [])"
| "load_pipelines ((pipeline_name, pipeline_wrapper) # rest) acc =
     (case pw_load_pipeline pipeline_wrapper of
        Inl e \<Rightarrow> (Inl e, [LoadPipeline pipeline_name])
      | Inr inst \<Rightarrow>
          (let (r, evs) = load_pipelines rest (dict_set acc pipeline_name inst)
           in (r, LoadPipeline pipeline_name # evs)))"

text \<open>The check that the command exists for all instruments; the first miss raises.\<close>

fun check_command :: "string \<Rightarrow> plugin dict \<Rightarrow> exn option" where
  "check_command command_name [] = None"
| "check_command command_name ((run_pipeline_name, run_pipeline) # rest) =
     (if dict_get (attrs run_pipeline) command_name = None
      then Some (Exn RunCommandError (no_command_msg command_name run_pipeline_name))
      else check_command command_name rest)"

text \<open>
  The inner loop, over the instances, for one deployment; \<open>acc\<close> is
  \<open>results_by_pipeline\<close>. An exception of \<open>load_config\<close> or of the method is not
  caught: it ends the loop.
\<close>

fun run_pipelines ::
  "string \<Rightarrow> string \<Rightarrow> deployment_wrapper \<Rightarrow> kwargs \<Rightarrow> plugin dict \<Rightarrow> pyval dict
     \<Rightarrow> (exn + pyval dict) \<times> event list" where
  "run_pipelines command_name dn dw merged_kwargs [] acc = (Inr acc, [])"
| "run_pipelines command_name dn dw merged_kwargs ((pn, run_pipeline) # rest) acc =
     (let pipeline_deployment_data_dir = dw_data_dir dw pn in
      case dw_load_config dw of
        Inl e \<Rightarrow> (Inl e, [])
      | Inr pipeline_deployment_config \<Rightarrow>
          (case dict_get (attrs run_pipeline) command_name of
             None \<Rightarrow> (Inl (Exn AttributeError command_name), [])
           | Some (Field v) \<Rightarrow> (Inl (Exn TypeError ''object is not callable''), [])
           | Some (Method method) \<Rightarrow>
               (let ev = Invoke dn pn command_name pipeline_deployment_data_dir
                           pipeline_deployment_config merged_kwargs in
                case method pipeline_deployment_data_dir pipeline_deployment_config merged_kwargs of
                  Inl e \<Rightarrow> (Inl e, [ev])
                | Inr res \<Rightarrow>
                    (let (r, evs) = run_pipelines command_name dn dw merged_kwargs rest
                                      (dict_set acc pn res)
                     in (r, ev # evs)))))"

text \<open>The outer loop, over the deployments; \<open>acc\<close> is \<open>results_by_deployment\<close>.\<close>

fun run_deployments ::
  "string \<Rightarrow> kwargs \<Rightarrow> plugin dict \<Rightarrow> deployment_wrapper dict \<Rightarrow> (pyval dict) dict
     \<Rightarrow> (exn + (pyval dict) dict) \<times> event list" where
  "run_deployments command_name merged_kwargs pipeline_to_run [] acc = (Inr acc, [])"
| "run_deployments command_name merged_kwargs pipeline_to_run ((dn, dw) # rest) acc =
     (case run_pipelines command_name dn dw merged_kwargs pipeline_to_run [] of
        (Inl e, evs) \<Rightarrow> (Inl e, evs)
      | (Inr results_by_pipeline, evs) \<Rightarrow>
          (let (r, evs') = run_deployments command_name merged_kwargs pipeline_to_run rest
                             (dict_set acc dn results_by_pipeline)
           in (r, evs @ evs')))"

definition run_command ::
  "project \<Rightarrow> string \<Rightarrow> string option \<Rightarrow> string option \<Rightarrow> string list option \<Rightarrow> kwargs
     \<Rightarrow> (exn + (pyval dict) dict) \<times> event list" where
  "run_command self command_name pipeline_name deployment_name extra_args kwargs =
     (let (merged_kwargs, evs0) = get_merged_keyword_args kwargs extra_args in
      case (case pipeline_name of
              None \<Rightarrow> Inr (pipeline_wrappers self)
            | Some pn \<Rightarrow>
                (case dict_get (pipeline_wrappers self) pn of
                   None \<Rightarrow> Inl (Exn RunCommandError (no_instrument_msg pn))
                 | Some pipeline_wrapper \<Rightarrow> Inr [(pn, pipeline_wrapper)])) of
        Inl e \<Rightarrow> (Inl e, evs0)
      | Inr pipeline_wrappers_to_run \<Rightarrow>
     (case (case deployment_name of
              None \<Rightarrow> Inr (deployment_wrappers self)
            | Some dn \<Rightarrow>
                (case dict_get (deployment_wrappers self) dn of
                   None \<Rightarrow> Inl (Exn RunCommandError (no_deployment_msg dn))
                 | Some deployment_wrapper \<Rightarrow> Inr [(dn, deployment_wrapper)])) of
        Inl e \<Rightarrow> (Inl e, evs0)
      | Inr deployment_wrappers_to_run \<Rightarrow>
     (case load_pipelines pipeline_wrappers_to_run [] of
        (Inl e, evs1) \<Rightarrow> (Inl e, evs0 @ evs1)
      | (Inr pipeline_to_run, evs1) \<Rightarrow>
     (case check_command command_name pipeline_to_run of
        Some e \<Rightarrow> (Inl e, evs0 @ evs1)
      | None \<Rightarrow>
          (let (r, evs2) = run_deployments command_name merged_kwargs pipeline_to_run
                             deployment_wrappers_to_run []
           in (r, evs0 @ evs1 @ evs2))))))"

text \<open>
  The selection of \<open>run_command\<close> read on its own: the wrappers a call targets (none
  when a requested name is missing, where \<open>run_command\<close> has raised), and the outcome
  of the loop body for one (deployment, pipeline) pair.
\<close>

definition pipeline_wrappers_to_run :: "project \<Rightarrow> string option \<Rightarrow> pipeline_ops dict" where
  "pipeline_wrappers_to_run self pipeline_name =
     (case pipeline_name of
        None \<Rightarrow> pipeline_wrappers self
      | Some pn \<Rightarrow>
          (case dict_get (pipeline_wrappers self) pn of
             None \<Rightarrow> []
           | Some pipeline_wrapper \<Rightarrow> [(pn, pipeline_wrapper)]))"

definition deployment_wrappers_to_run :: "project \<Rightarrow> string option \<Rightarrow> deployment_wrapper dict" where
  "deployment_wrappers_to_run self deployment_name =
     (case deployment_name of
        None \<Rightarrow> deployment_wrappers self
      | Some dn \<Rightarrow>
          (case dict_get (deployment_wrappers self) dn of
             None \<Rightarrow> []
           | Some deployment_wrapper \<Rightarrow> [(dn, deployment_wrapper)]))"

definition name_resolves :: "'v dict \<Rightarrow> string option \<Rightarrow> bool" where
  "name_resolves d name = (case name of None \<Rightarrow> True | Some n \<Rightarrow> dict_get d n \<noteq> None)"

definition invoke_pair ::
  "string \<Rightarrow> kwargs \<Rightarrow> deployment_wrapper \<Rightarrow> string \<Rightarrow> plugin \<Rightarrow> exn + pyval" where
  "invoke_pair command_name merged_kwargs dw pn run_pipeline =
     (case dw_load_config dw of
        Inl e \<Rightarrow> Inl e
      | Inr pipeline_deployment_config \<Rightarrow>
          (case dict_get (attrs run_pipeline) command_name of
             None \<Rightarrow> Inl (Exn AttributeError command_name)
           | Some (Field v) \<Rightarrow> Inl (Exn TypeError ''object is not callable'')
           | Some (Method method) \<Rightarrow>
               method (dw_data_dir dw pn) pipeline_deployment_config merged_kwargs))"

definition returns :: "'e + 'a \<Rightarrow> bool" where
  "returns r = (case r of Inl e \<Rightarrow> False | Inr v \<Rightarrow> True)"

definition lacks_command :: "string \<Rightarrow> string \<times> plugin \<Rightarrow> bool" where
  "lacks_command command_name p = (dict_get (attrs (snd p)) command_name = None)"

definition leaf_count :: "('v dict) dict \<Rightarrow> nat" where
  "leaf_count agg = sum_list (map (\<lambda>row. length (snd row)) agg)"

text \<open>\<open>compose\<close>: the deployment wrappers are looked up in the order of the names.\<close>

fun lookup_deployments :: "deployment_wrapper dict \<Rightarrow> string list \<Rightarrow> exn + deployment_wrapper list" where
  "lookup_deployments dws [] = Inr []"
| "lookup_deployments dws (deployment_name # rest) =
     (case dict_get dws deployment_name of
        None \<Rightarrow> Inl (Exn NoSuchDeploymentError deployment_name)
      | Some deployment_wrapper \<Rightarrow>
          (case lookup_deployments dws rest of
             Inl e \<Rightarrow> Inl e
           | Inr ws \<Rightarrow> Inr (deployment_wrapper # ws)))"

fun load_configs :: "deployment_wrapper list \<Rightarrow> exn + config list" where
  "load_configs [] = Inr []"
| "load_configs (deployment_wrapper # rest) =
     (case dw_load_config deployment_wrapper of
        Inl e \<Rightarrow> Inl e
      | Inr c \<Rightarrow> (case load_configs rest of Inl e \<Rightarrow> Inl e | Inr cs \<Rightarrow> Inr (c # cs)))"

definition compose ::
  "project \<Rightarrow> string \<Rightarrow> string list \<Rightarrow> string list option \<Rightarrow> kwargs \<Rightarrow> (exn + pyval) \<times> event list" where
  "compose self pipeline_name deployment_names extra_args kwargs =
     (let (merged_kwargs, evs0) = get_merged_keyword_args kwargs extra_args in
      case dict_get (pipeline_wrappers self) pipeline_name of
        None \<Rightarrow> (Inl (Exn NoSuchPipelineError pipeline_name), evs0)
      | Some pipeline_wrapper \<Rightarrow>
     (case pw_load_pipeline pipeline_wrapper of
        Inl e \<Rightarrow> (Inl e, evs0 @ [LoadPipeline pipeline_name])
      | Inr pipeline \<Rightarrow>
     (case lookup_deployments (deployment_wrappers self) deployment_names of
        Inl e \<Rightarrow> (Inl e, evs0 @ [LoadPipeline pipeline_name])
      | Inr dws \<Rightarrow>
          (let deployment_data_dirs = map (\<lambda>dw. dw_data_dir dw pipeline_name) dws in
           case load_configs dws of
             Inl e \<Rightarrow> (Inl e, evs0 @ [LoadPipeline pipeline_name])
           | Inr deployment_configs \<Rightarrow>
               (run_compose pipeline deployment_data_dirs deployment_configs merged_kwargs,
                evs0 @ [LoadPipeline pipeline_name,
                        ComposeCall pipeline_name deployment_data_dirs deployment_configs
                          merged_kwargs])))))"

text \<open>
  \<open>update_pipelines\<close>: one pass over the registered wrappers; \<open>except Exception\<close>
  turns a failed update into an error record of the log.
\<close>

definition updating_msg :: "string \<Rightarrow> string" where
  "updating_msg pipeline_name = ''Updating instrument '' @ quoted pipeline_name"

definition updated_msg :: "string \<Rightarrow> string" where
  "updated_msg pipeline_name = ''Successfully updated instrument '' @ quoted pipeline_name"

definition update_failed_msg :: "string \<Rightarrow> exn \<Rightarrow> string" where
  "update_failed_msg pipeline_name e =
     ''Failed to update instrument '' @ quoted pipeline_name @ '': '' @ exn_message e"

fun update_loop :: "pipeline_ops dict \<Rightarrow> event list" where
  "update_loop [] = []"
| "update_loop ((pipeline_name, pipeline_wrapper) # rest) =
     LogInfo (updating_msg pipeline_name) # UpdateAttempt pipeline_name #
     (case pw_update pipeline_wrapper of
        Inr u \<Rightarrow> LogInfo (updated_msg pipeline_name)
      | Inl e \<Rightarrow> LogError (update_failed_msg pipeline_name e)) #
     update_loop rest"

definition update_pipelines :: "project \<Rightarrow> (exn + unit) \<times> event list" where
  "update_pipelines self = (Inr (), update_loop (pipeline_wrappers self))"

text \<open>Reading the trace: the plugin calls made, and the updates attempted.\<close>

fun is_invoke :: "event \<Rightarrow> bool" where
  "is_invoke (Invoke dn pn c d cfg kw) = True"
| "is_invoke (ComposeCall pn ds cs kw) = True"
| "is_invoke ev = False"

fun invoked_pair :: "event \<Rightarrow> (string \<times> string) option" where
  "invoked_pair (Invoke dn pn c d cfg kw) = Some (dn, pn)"
| "invoked_pair ev = None"

definition invoked_pairs :: "event list \<Rightarrow> (string \<times> string) list" where
  "invoked_pairs evs = List.map_filter invoked_pair evs"

fun update_attempt :: "event \<Rightarrow> string option" where
  "update_attempt (UpdateAttempt n) = Some n"
| "update_attempt ev = None"

definition update_attempts :: "event list \<Rightarrow> string list" where
  "update_attempts evs = List.map_filter update_attempt evs"

fun failed_update :: "event \<Rightarrow> bool" where
  "failed_update (LogError m) = True"
| "failed_update ev = False"

section \<open>Plugin discovery and loading (\<open>load_pipeline_instance\<close>, \<open>PipelineWrapper\<close>)\<close>

text \<open>
  What a plugin module's namespace can hold: classes and other values. A class is the
  abstract base itself, a class derived from it, or an unrelated class.
\<close>

datatype cls = BasePipeline | PipelineSubclass string | OtherClass string

datatype pyobj = TypeObj cls | ValueObj pyval

fun issubclass_BasePipeline :: "cls \<Rightarrow> bool" where
  "issubclass_BasePipeline BasePipeline = True"
| "issubclass_BasePipeline (PipelineSubclass n) = True"
| "issubclass_BasePipeline (OtherClass n) = False"

fun is_pipeline_implementation :: "pyobj \<Rightarrow> bool" where
  "is_pipeline_implementation (TypeObj c) = (issubclass_BasePipeline c \<and> c \<noteq> BasePipeline)"
| "is_pipeline_implementation (ValueObj v) = False"

text \<open>The scan of \<open>pipeline_module.__dict__\<close>: the first qualifying class, if any.\<close>

fun find_pipeline_class :: "pyobj dict \<Rightarrow> cls option" where
  "find_pipeline_class [] = None"
| "find_pipeline_class ((n, obj) # rest) =
     (case obj of
        TypeObj c \<Rightarrow> (if is_pipeline_implementation obj then Some c else find_pipeline_class rest)
      | ValueObj v \<Rightarrow> find_pipeline_class rest)"

text \<open>
  \<open>importlib\<close> is a parameter: \<open>spec_from_file_location\<close> gives a module spec or
  \<open>None\<close>; the spec's loader may be missing; \<open>exec_module\<close> sees the module search
  path of the moment and either raises or fills the module's namespace. The model takes
  module execution to leave \<open>sys.path\<close> itself alone.
\<close>

record module_spec =
  spec_name :: string
  spec_loader :: "(string list \<Rightarrow> exn + pyobj dict) option"

text \<open>
  The part of the process and of the disk that loading touches: the paths present on
  disk, \<open>sys.path\<close>, and two counters that record how often the disk was scanned and how
  often a module was executed.
\<close>

record world =
  files :: "path list"
  sys_path :: "string list"
  scans :: nat
  execs :: nat

definition str_path :: "path \<Rightarrow> string" where
  "str_path p = concat (map (\<lambda>c. CHR ''/'' # c) p)"

definition endswith :: "string \<Rightarrow> string \<Rightarrow> bool" where
  "endswith s suf = (length suf \<le> length s \<and> drop (length s - length suf) s = suf)"

definition is_under :: "path \<Rightarrow> path \<Rightarrow> bool" where
  "is_under dir p = (length dir < length p \<and> take (length dir) p = dir)"

text \<open>\<open>repo_dir.glob("**/*.pipeline.py")\<close>: every path below the directory, at any depth,
  whose last component ends in \<open>.pipeline.py\<close>.\<close>

definition glob_pipeline_py :: "path \<Rightarrow> path list \<Rightarrow> path list" where
  "glob_pipeline_py dir fs = filter (\<lambda>p. is_under dir p \<and> endswith (last p) ''.pipeline.py'') fs"

text \<open>\<open>Path.stem\<close>: the last component without its final suffix.\<close>

definition stem :: "path \<Rightarrow> string" where
  "stem p =
     (let name = last p; r = rev name;
          ext = takeWhile (\<lambda>c. c \<noteq> CHR ''.'') r;
          rest = dropWhile (\<lambda>c. c \<noteq> CHR ''.'') r
      in if rest = [] \<or> tl rest = [] \<or> ext = [] then name else rev (tl rest))"

definition repr_paths :: "path list \<Rightarrow> string" where
  "repr_paths ps =
     ''['' @ concat (map (\<lambda>p. ''PosixPath('' @ [CHR 0x27] @ str_path p @ [CHR 0x27] @ ''), '') ps) @ '']''"

definition no_impl_msg :: "path \<Rightarrow> string" where
  "no_impl_msg repo_dir = ''No pipeline implementation found in '' @ quoted (str_path repo_dir) @ ''.''"

definition multiple_impl_msg :: "path \<Rightarrow> path list \<Rightarrow> string" where
  "multiple_impl_msg repo_dir paths =
     ''Multiple pipeline implementations found in '' @ quoted (str_path repo_dir) @ '': ''
       @ repr_paths paths @ ''.''"

definition no_spec_msg :: "string \<Rightarrow> path \<Rightarrow> string" where
  "no_spec_msg name p = ''Could not load spec for '' @ name @ '' from '' @ str_path p"

definition no_loader_msg :: "string \<Rightarrow> path \<Rightarrow> string" where
  "no_loader_msg name p = ''Could not find loader for '' @ name @ '' from '' @ str_path p"

definition no_class_msg :: string where
  "no_class_msg = ''Pipeline class has not been set or could not be found.''"

record pipeline_instance =
  inst_class :: cls
  inst_root_path :: path
  inst_config :: config
  inst_dry_run :: bool

text \<open>
  \<open>load_pipeline_instance\<close> of \<open>core/parallel/pipeline_loader.py\<close>. The configuration
  codec \<open>load_config\<close> is not among the sources and is a parameter. Each exit gives the
  result and the world it leaves behind.
\<close>

definition load_pipeline_instance ::
  "(string \<Rightarrow> string \<Rightarrow> module_spec option) \<Rightarrow> (path \<Rightarrow> exn + config)
     \<Rightarrow> path \<Rightarrow> path \<Rightarrow> bool \<Rightarrow> world \<Rightarrow> (exn + pipeline_instance) \<times> world" where
  "load_pipeline_instance spec_from_file_location load_config repo_dir config_path dry_run s =
     (let pipeline_module_paths = glob_pipeline_py repo_dir (files s);
          s1 = s\<lparr>scans := scans s + 1\<rparr> in
      if length pipeline_module_paths = 0
      then (Inl (Exn FileNotFoundError (no_impl_msg repo_dir)), s1)
      else if length pipeline_module_paths > 1
      then (Inl (Exn FileNotFoundError (multiple_impl_msg repo_dir pipeline_module_paths)), s1)
      else
       (let pipeline_module_path = pipeline_module_paths ! 0;
            pipeline_module_name = stem pipeline_module_path in
        case spec_from_file_location pipeline_module_name (str_path pipeline_module_path) of
          None \<Rightarrow> (Inl (Exn ImportError (no_spec_msg pipeline_module_name pipeline_module_path)), s1)
        | Some pipeline_module_spec \<Rightarrow>
       (let s2 = s1\<lparr>sys_path := str_path repo_dir # sys_path s1\<rparr> in
        case spec_loader pipeline_module_spec of
          None \<Rightarrow> (Inl (Exn ImportError (no_loader_msg pipeline_module_name pipeline_module_path)), s2)
        | Some exec_module \<Rightarrow>
       (let s3 = s2\<lparr>execs := execs s2 + 1\<rparr> in
        case exec_module (sys_path s3) of
          Inl e \<Rightarrow> (Inl e, s3)
        | Inr module_dict \<Rightarrow>
       (case sys_path s3 of
          [] \<Rightarrow> (Inl (Exn IndexError ''pop from empty list''), s3)
        | popped # remaining \<Rightarrow>
       (let s4 = s3\<lparr>sys_path := remaining\<rparr> in
        case find_pipeline_class module_dict of
          None \<Rightarrow> (Inl (Exn ImportError no_class_msg), s4)
        | Some pipeline_class \<Rightarrow>
       (case load_config config_path of
          Inl e \<Rightarrow> (Inl e, s4)
        | Inr c \<Rightarrow>
            (Inr \<lparr>inst_class = pipeline_class, inst_root_path = repo_dir,
                  inst_config = c, inst_dry_run = dry_run\<rparr>, s4))))))))"

text \<open>\<open>PipelineWrapper\<close> of \<open>core/wrappers/pipeline.py\<close>, with the fields the claims need.\<close>

record pipeline_wrapper =
  root_dir :: path
  dry_run :: bool
  pipeline_class :: "cls option"

definition repo_dir :: "pipeline_wrapper \<Rightarrow> path" where
  "repo_dir self = root_dir self @ [''repo'']"

definition config_path :: "pipeline_wrapper \<Rightarrow> path" where
  "config_path self = root_dir self @ [''pipeline.yml'']"

text \<open>
  \<open>get_pipeline_class\<close>: the cached class when there is one; otherwise discovery,
  module execution and the scan, storing the class found.
\<close>

definition get_pipeline_class ::
  "(string \<Rightarrow> string \<Rightarrow> module_spec option) \<Rightarrow> pipeline_wrapper \<Rightarrow> world
     \<Rightarrow> (exn + cls option) \<times> pipeline_wrapper \<times> world" where
  "get_pipeline_class spec_from_file_location self s =
     (case pipeline_class self of
        Some c \<Rightarrow> (Inr (Some c), self, s)
      | None \<Rightarrow>
       (let pipeline_module_paths = glob_pipeline_py (repo_dir self) (files s);
            s1 = s\<lparr>scans := scans s + 1\<rparr> in
        if length pipeline_module_paths = 0
        then (Inl (Exn FileNotFoundError (no_impl_msg (repo_dir self))), self, s1)
        else if length pipeline_module_paths > 1
        then (Inl (Exn FileNotFoundError
                (multiple_impl_msg (repo_dir self) pipeline_module_paths)), self, s1)
        else
         (let pipeline_module_path = pipeline_module_paths ! 0;
              pipeline_module_name = stem pipeline_module_path in
          case spec_from_file_location pipeline_module_name (str_path pipeline_module_path) of
            None \<Rightarrow>
              (Inl (Exn ImportError (no_spec_msg pipeline_module_name pipeline_module_path)),
               self, s1)
          | Some pipeline_module_spec \<Rightarrow>
         (let s2 = s1\<lparr>sys_path := str_path (repo_dir self) # sys_path s1\<rparr> in
          case spec_loader pipeline_module_spec of
            None \<Rightarrow>
              (Inl (Exn ImportError (no_loader_msg pipeline_module_name pipeline_module_path)),
               self, s2)
          | Some exec_module \<Rightarrow>
         (let s3 = s2\<lparr>execs := execs s2 + 1\<rparr> in
          case exec_module (sys_path s3) of
            Inl e \<Rightarrow> (Inl e, self, s3)
          | Inr module_dict \<Rightarrow>
         (case sys_path s3 of
            [] \<Rightarrow> (Inl (Exn IndexError ''pop from empty list''), self, s3)
          | popped # remaining \<Rightarrow>
         (let s4 = s3\<lparr>sys_path := remaining\<rparr>;
              self' = (case find_pipeline_class module_dict of
                         None \<Rightarrow> self
                       | Some obj \<Rightarrow> self\<lparr>pipeline_class := Some obj\<rparr>)
          in (Inr (pipeline_class self'), self', s4))))))))"

text \<open>Calling \<open>get_pipeline_class\<close> \<open>n\<close> more times, collecting what each call returns.\<close>

fun get_pipeline_class_again ::
  "nat \<Rightarrow> (string \<Rightarrow> string \<Rightarrow> module_spec option) \<Rightarrow> pipeline_wrapper \<Rightarrow> world
     \<Rightarrow> (exn + cls option) list \<times> pipeline_wrapper \<times> world" where
  "get_pipeline_class_again 0 spec_from_file_location self s = ([], self, s)"
| "get_pipeline_class_again (Suc n) spec_from_file_location self s =
     (let (r, self1, s1) = get_pipeline_class spec_from_file_location self s;
          (rs, self2, s2) = get_pipeline_class_again n spec_from_file_location self1 s1
      in (r # rs, self2, s2))"

text \<open>
  \<open>save_config\<close>: the codec's \<open>save_config(path, config)\<close> is not among the sources; it
  is a parameter acting on the file store \<open>'fs\<close>. An \<open>Optional[Dict]\<close> is false when
  it is \<open>None\<close> or has no entry.
\<close>

fun truthy_config :: "config option \<Rightarrow> bool" where
  "truthy_config None = False"
| "truthy_config (Some c) = (c \<noteq> [])"

definition save_config ::
  "(path \<Rightarrow> config \<Rightarrow> 'fs \<Rightarrow> (exn + unit) \<times> 'fs) \<Rightarrow> pipeline_wrapper \<Rightarrow> config option \<Rightarrow> 'fs
     \<Rightarrow> (exn + unit) \<times> 'fs" where
  "save_config codec_save_config self config fs =
     (if truthy_config config
      then (case config of
              Some c \<Rightarrow> codec_save_config (config_path self) c fs
            | None \<Rightarrow> (Inr (), fs))
      else (Inr (), fs))"

definition raised_kind :: "exn + 'a \<Rightarrow> exn_class option" where
  "raised_kind r = (case r of Inl e \<Rightarrow> Some (exn_kind e) | Inr v \<Rightarrow> None)"

section \<open>A small project, for concrete runs\<close>

definition echo_dir :: "path \<Rightarrow> config \<Rightarrow> kwargs \<Rightarrow> exn + pyval" where
  "echo_dir data_dir c kw = Inr (PyPath data_dir)"

definition camA :: plugin where
  "camA = \<lparr>attrs = [(''run_import'', Method echo_dir), (''run_process'', Method echo_dir),
                    (''dry_run'', Field (PyBool False))],
           run_compose = (\<lambda>dirs cs kw. Inr (PyInt (int (length dirs))))\<rparr>"

definition camB :: plugin where
  "camB = \<lparr>attrs = [(''run_import'', Method echo_dir)],
           run_compose = (\<lambda>dirs cs kw. Inr PyNone)\<rparr>"

definition example_deployment :: "string \<Rightarrow> deployment_wrapper" where
  "example_deployment n =
     \<lparr>dw_data_dir = (\<lambda>pn. [''deployments'', n, pn]),
      dw_load_config = Inr [(''site'', PyStr n)]\<rparr>"

definition example_project :: project where
  "example_project =
     \<lparr>pipeline_wrappers =
        [(''camA'', \<lparr>pw_load_pipeline = Inr camA,
                     pw_update = Inl (Exn OtherError ''pull failed'')\<rparr>),
         (''camB'', \<lparr>pw_load_pipeline = Inr camB, pw_update = Inr ()\<rparr>)],
      deployment_wrappers =
        [(''dep1'', example_deployment ''dep1''), (''dep2'', example_deployment ''dep2'')]\<rparr>"

definition example_wrapper :: pipeline_wrapper where
  "example_wrapper = \<lparr>root_dir = [''pipelines'', ''camA''], dry_run = False, pipeline_class = None\<rparr>"

text \<open>A codec that keeps each file's configuration in a list of (path, content) pairs.\<close>

definition example_codec ::
  "path \<Rightarrow> config \<Rightarrow> (path \<times> config) list \<Rightarrow> (exn + unit) \<times> (path \<times> config) list" where
  "example_codec p c fs = (Inr (), (p, c) # filter (\<lambda>entry. fst entry \<noteq> p) fs)"

text \<open>Worlds and importers for concrete loads.\<close>

definition example_world :: "path list \<Rightarrow> world" where
  "example_world fs = \<lparr>files = fs, sys_path = [''/usr/lib/python3''], scans = 0, execs = 0\<rparr>"

definition one_plugin_file :: "path list" where
  "one_plugin_file =
     [[''pipelines'', ''camA'', ''repo'', ''README.md''],
      [''pipelines'', ''camA'', ''repo'', ''src'', ''cam.pipeline.py''],
      [''pipelines'', ''camB'', ''repo'', ''other.pipeline.py'']]"

definition two_plugin_files :: "path list" where
  "two_plugin_files =
     [[''pipelines'', ''camA'', ''repo'', ''cam.pipeline.py''],
      [''pipelines'', ''camA'', ''repo'', ''old'', ''cam.pipeline.py'']]"

definition good_importer :: "string \<Rightarrow> string \<Rightarrow> module_spec option" where
  "good_importer name location =
     Some \<lparr>spec_name = name,
           spec_loader = Some (\<lambda>search_path.
             Inr [(''BasePipeline'', TypeObj BasePipeline),
                  (''VERSION'', ValueObj (PyInt 1)),
                  (''CamA'', TypeObj (PipelineSubclass ''CamA''))])\<rparr>"

definition raising_importer :: "string \<Rightarrow> string \<Rightarrow> module_spec option" where
  "raising_importer name location =
     Some \<lparr>spec_name = name,
           spec_loader = Some (\<lambda>search_path. Inl (Exn OtherError ''plugin module raised''))\<rparr>"

definition no_loader_importer :: "string \<Rightarrow> string \<Rightarrow> module_spec option" where
  "no_loader_importer name location = Some \<lparr>spec_name = name, spec_loader = None\<rparr>"

definition example_load_config :: "path \<Rightarrow> exn + config" where
  "example_load_config p = Inr [(''platform'', PyStr ''auv'')]"

section \<open>Properties of dictionaries\<close>

lemma dict_get_set: "dict_get (dict_set d k v) k' = (if k' = k then Some v else dict_get d k')"
  by (induction d) (auto simp: dict_get_def)

lemma dict_keys_set:
  "dict_keys (dict_set d k v) = (if k \<in> set (dict_keys d) then dict_keys d else dict_keys d @ [k])"
  by (induction d) (auto simp: dict_keys_def)

lemma distinct_dict_set: "distinct (dict_keys d) \<Longrightarrow> distinct (dict_keys (dict_set d k v))"
  by (simp add: dict_keys_set)

lemma length_dict_set_new:
  "k \<notin> set (dict_keys d) \<Longrightarrow> dict_set d k v = d @ [(k, v)]"
  by (induction d) (auto simp: dict_keys_def)

lemma dict_get_append_last:
  "dict_get (d @ [(k', v')]) k =
     (case dict_get d k of Some v \<Rightarrow> Some v | None \<Rightarrow> if k = k' then Some v' else None)"
  by (induction d) (auto simp: dict_get_def)

lemma dict_get_merge:
  "dict_get (dict_merge a b) k = (case dict_get (rev b) k of Some v \<Rightarrow> Some v | None \<Rightarrow> dict_get a k)"
proof (induction b arbitrary: a)
  case Nil
  then show ?case by (simp add: dict_merge_def dict_get_def)
next
  case (Cons p b)
  obtain k' v' where p: "p = (k', v')" by (cases p)
  have "dict_get (dict_merge a (p # b)) k = dict_get (dict_merge (dict_set a k' v') b) k"
    by (simp add: dict_merge_def p)
  also have "\<dots> = (case dict_get (rev b) k of Some v \<Rightarrow> Some v
                   | None \<Rightarrow> dict_get (dict_set a k' v') k)"
    by (rule Cons.IH)
  finally show ?case
    by (simp add: p dict_get_set dict_get_append_last split: option.splits)
qed

section \<open>Properties of the split\<close>

lemma py_split_nonempty: "py_split c s \<noteq> []"
  by (induction s) (auto split: list.splits)

lemma length_py_split: "length (py_split c s) = Suc (count_list s c)"
  by (induction s) (auto split: list.splits simp: py_split_nonempty)

lemma py_split_hd: "hd (py_split c s) = takeWhile (\<lambda>x. x \<noteq> c) s"
  by (induction s) (auto split: list.splits simp: py_split_nonempty)

lemma py_split_tl: "tl (py_split c s) =
  (case dropWhile (\<lambda>x. x \<noteq> c) s of [] \<Rightarrow> [] | _ # r \<Rightarrow> py_split c r)"
proof (induction s)
  case Nil
  then show ?case by simp
next
  case (Cons x xs)
  obtain p ps where ps: "py_split c xs = p # ps"
    using py_split_nonempty [of c xs] by (cases "py_split c xs") auto
  with Cons show ?case by auto
qed

lemma py_split_no_sep: "count_list s c = 0 \<Longrightarrow> py_split c s = [s]"
  by (induction s) (auto split: list.splits if_splits)

lemma count_list_dropWhile:
  "count_list (dropWhile (\<lambda>x. x \<noteq> c) s) c = count_list s c"
  by (induction s) auto

lemma py_split_two:
  assumes "count_list s c = 1"
  shows "py_split c s = [takeWhile (\<lambda>x. x \<noteq> c) s, tl (dropWhile (\<lambda>x. x \<noteq> c) s)]"
proof -
  have cnt: "count_list (dropWhile (\<lambda>x. x \<noteq> c) s) c = 1"
    using assms by (simp add: count_list_dropWhile)
  then obtain y r where dw: "dropWhile (\<lambda>x. x \<noteq> c) s = y # r"
    by (cases "dropWhile (\<lambda>x. x \<noteq> c) s") auto
  have "y = c" using dw hd_dropWhile [of "\<lambda>x. x \<noteq> c" s] by auto
  with cnt dw have "count_list r c = 0" by simp
  then have r: "py_split c r = [r]" by (rule py_split_no_sep)
  have "py_split c s = hd (py_split c s) # tl (py_split c s)"
    using py_split_nonempty [of c s] by simp
  then show ?thesis
    by (simp add: py_split_hd py_split_tl dw r)
qed

lemma extra_args_loop_spec:
  "extra_args_loop args d =
     (fold (\<lambda>arg d. dict_set d (extra_key arg) (PyStr (extra_value arg)))
           (filter well_formed_extra args) d,
      map (\<lambda>arg. LogWarning (invalid_extra_msg arg))
          (filter (\<lambda>arg. \<not> well_formed_extra arg) args))"
proof (induction args arbitrary: d)
  case Nil
  then show ?case by simp
next
  case (Cons arg rest)
  show ?case
  proof (cases "well_formed_extra arg")
    case True
    then have "py_split (CHR ''='') arg = [extra_key arg, extra_value arg]"
      by (simp add: well_formed_extra_def extra_key_def extra_value_def py_split_two)
    with True Cons.IH show ?thesis by simp
  next
    case False
    then have "length (py_split (CHR ''='') arg) \<noteq> 2"
      by (simp add: well_formed_extra_def length_py_split)
    with False Cons.IH show ?thesis by simp
  qed
qed

section \<open>Extra arguments: what is merged and what is dropped\<close>

lemma fold_extra_keys_distinct:
  "distinct (dict_keys d) \<Longrightarrow>
   distinct (dict_keys (fold (\<lambda>arg d. dict_set d (f arg) (g arg)) xs d))"
  by (induction xs arbitrary: d) (simp_all add: distinct_dict_set)

lemma fold_extra_get_other:
  "\<forall>x\<in>set xs. f x \<noteq> k \<Longrightarrow>
   dict_get (fold (\<lambda>arg d. dict_set d (f arg) (g arg)) xs d) k = dict_get d k"
  by (induction xs arbitrary: d) (auto simp: dict_get_set)

lemma dict_get_rev: "distinct (dict_keys d) \<Longrightarrow> dict_get (rev d) k = dict_get d k"
proof -
  assume d: "distinct (dict_keys d)"
  then have "distinct (map fst (rev d))" by (simp add: dict_keys_def rev_map [symmetric])
  then have "map_of (rev d) = map_of d"
    using d by (intro map_of_inject_set [THEN iffD2]) (simp_all add: dict_keys_def)
  then show ?thesis by (simp add: dict_get_def)
qed

lemma merged_kwargs_eq:
  "fst (get_merged_keyword_args kwargs extra_args) =
     dict_merge kwargs (extra_dict_of (args_of extra_args))"
  by (cases extra_args)
     (simp_all add: get_merged_keyword_args_def args_of_def extra_dict_of_def extra_args_loop_spec)

text \<open>
  Claim C9. For every list of extra arguments, \<open>get_merged_keyword_args\<close> returns (it has
  no failing exit) the keyword arguments overlaid with exactly the entries that hold one
  \<open>=\<close>, each cut at that \<open>=\<close> into key and value, and it logs one warning, in order, for
  each entry that does not hold exactly one \<open>=\<close>; such an entry contributes nothing to the
  merged arguments.
\<close>

theorem get_merged_keyword_args_spec:
  "get_merged_keyword_args kwargs extra_args =
     (dict_merge kwargs (extra_dict_of (args_of extra_args)),
      map (\<lambda>arg. LogWarning (invalid_extra_msg arg))
          (filter (\<lambda>arg. \<not> well_formed_extra arg) (args_of extra_args)))"
  by (cases extra_args)
     (simp_all add: get_merged_keyword_args_def args_of_def extra_dict_of_def extra_args_loop_spec)

theorem get_merged_keyword_args_spec_witness:
  "get_merged_keyword_args [(''a'', PyInt 1)] (Some [''a=b'', ''c=d=e'', ''f'', ''g='']) =
     ([(''a'', PyStr ''b''), (''g'', PyStr '''')],
      [LogWarning (invalid_extra_msg ''c=d=e''), LogWarning (invalid_extra_msg ''f'')])"
  using get_merged_keyword_args_spec [of "[(''a'', PyInt 1)]" "Some [''a=b'', ''c=d=e'', ''f'', ''g='']"]
  by (simp add: args_of_def extra_dict_of_def well_formed_extra_def extra_key_def extra_value_def
        dict_merge_def)

text \<open>
  Claim C10. When a well-formed extra argument is the last one given for its key, the
  merged keyword arguments bind that key to the argument's value, as a string, whatever
  the structured keyword arguments bound it to: on a collision the extra argument wins.
\<close>

theorem extra_args_take_precedence:
  assumes "extra_args = Some (pre @ arg # post)"
    and "well_formed_extra arg"
    and "\<forall>b\<in>set post. well_formed_extra b \<longrightarrow> extra_key b \<noteq> extra_key arg"
  shows "dict_get (fst (get_merged_keyword_args kwargs extra_args)) (extra_key arg)
           = Some (PyStr (extra_value arg))"
proof -
  let ?step = "\<lambda>arg d. dict_set d (extra_key arg) (PyStr (extra_value arg))"
  let ?E = "extra_dict_of (pre @ arg # post)"
  have dist: "distinct (dict_keys ?E)"
    unfolding extra_dict_of_def by (rule fold_extra_keys_distinct) (simp add: dict_keys_def)
  have "\<forall>b\<in>set (filter well_formed_extra post). extra_key b \<noteq> extra_key arg"
    using assms(3) by simp
  then have "dict_get ?E (extra_key arg) =
        dict_get (?step arg (fold ?step (filter well_formed_extra pre) [])) (extra_key arg)"
    using assms(2) unfolding extra_dict_of_def
    by (simp add: fold_extra_get_other)
  then have E: "dict_get ?E (extra_key arg) = Some (PyStr (extra_value arg))"
    by (simp add: dict_get_set)
  have "fst (get_merged_keyword_args kwargs extra_args) = dict_merge kwargs ?E"
    by (simp add: merged_kwargs_eq assms(1) args_of_def)
  then show ?thesis
    by (simp add: dict_get_merge dict_get_rev [OF dist] E)
qed

theorem extra_args_take_precedence_witness:
  "well_formed_extra ''overwrite=yes''
   \<and> dict_get [(''dry_run'', PyBool True), (''overwrite'', PyBool False)] ''overwrite''
        = Some (PyBool False)
   \<and> dict_get (fst (get_merged_keyword_args
         [(''dry_run'', PyBool True), (''overwrite'', PyBool False)]
         (Some [''overwrite=no'', ''overwrite=yes'', ''days=3'']))) ''overwrite''
       = Some (PyStr ''yes'')"
proof -
  have wf: "well_formed_extra ''overwrite=yes''" by (simp add: well_formed_extra_def)
  have later: "\<forall>b\<in>set [''days=3''].
      well_formed_extra b \<longrightarrow> extra_key b \<noteq> extra_key ''overwrite=yes''"
    by (simp add: extra_key_def)
  have "Some [''overwrite=no'', ''overwrite=yes'', ''days=3'']
          = Some ([''overwrite=no''] @ ''overwrite=yes'' # [''days=3''])" by simp
  from extra_args_take_precedence [OF this wf later] wf show ?thesis
    by (simp add: extra_key_def extra_value_def dict_get_def)
qed

section \<open>\<open>run_command\<close>: the command check comes before every call\<close>

lemma load_pipelines_no_invoke: "filter is_invoke (snd (load_pipelines ws acc)) = []"
  by (induction ws acc rule: load_pipelines.induct) (auto split: sum.splits prod.splits)

lemma merged_events_eq:
  "snd (get_merged_keyword_args kwargs extra_args) =
      map (\<lambda>arg. LogWarning (invalid_extra_msg arg))
          (filter (\<lambda>arg. \<not> well_formed_extra arg) (args_of extra_args))"
  by (cases extra_args)
     (simp_all add: get_merged_keyword_args_def args_of_def extra_args_loop_spec)

lemma merged_events_no_invoke:
  "filter is_invoke (snd (get_merged_keyword_args kwargs extra_args)) = []"
  by (simp add: merged_events_eq filter_map comp_def)

lemma check_command_find:
  "check_command command_name loaded =
     (case find (lacks_command command_name) loaded of
        None \<Rightarrow> None
      | Some p \<Rightarrow> Some (Exn RunCommandError (no_command_msg command_name (fst p))))"
  by (induction loaded) (auto simp: lacks_command_def)

lemma run_command_unfold:
  assumes "name_resolves (pipeline_wrappers self) pipeline_name"
    and "name_resolves (deployment_wrappers self) deployment_name"
  shows "run_command self command_name pipeline_name deployment_name extra_args kwargs =
     (let (merged_kwargs, evs0) = get_merged_keyword_args kwargs extra_args in
      case load_pipelines (pipeline_wrappers_to_run self pipeline_name) [] of
        (Inl e, evs1) \<Rightarrow> (Inl e, evs0 @ evs1)
      | (Inr pipeline_to_run, evs1) \<Rightarrow>
          (case check_command command_name pipeline_to_run of
             Some e \<Rightarrow> (Inl e, evs0 @ evs1)
           | None \<Rightarrow>
              (let (r, evs2) = run_deployments command_name merged_kwargs pipeline_to_run
                     (deployment_wrappers_to_run self deployment_name) []
               in (r, evs0 @ evs1 @ evs2))))"
  using assms
  by (auto simp: run_command_def name_resolves_def pipeline_wrappers_to_run_def
        deployment_wrappers_to_run_def split: option.splits prod.splits sum.splits)

text \<open>
  Claim C1. When the requested deployment (if one is named) exists, the targeted
  pipelines have all been loaded, and the command is absent on at least one loaded
  instance, \<open>run_command\<close> raises \<open>RunCommandError\<close> with the message that names a
  pipeline lacking the command, and the trace of the call holds no plugin invocation at
  all: the check precedes every call.
\<close>

theorem run_command_missing_command:
  assumes dep: "name_resolves (deployment_wrappers self) deployment_name"
    and load: "load_pipelines (pipeline_wrappers_to_run self pipeline_name) [] = (Inr loaded, evs1)"
    and lacks: "\<exists>p\<in>set loaded. lacks_command command_name p"
  shows "(\<exists>p\<in>set loaded. lacks_command command_name p \<and>
            fst (run_command self command_name pipeline_name deployment_name extra_args kwargs)
              = Inl (Exn RunCommandError (no_command_msg command_name (fst p))))
         \<and> filter is_invoke
              (snd (run_command self command_name pipeline_name deployment_name extra_args kwargs))
              = []"
proof -
  from lacks obtain p where p: "find (lacks_command command_name) loaded = Some p"
    by (cases "find (lacks_command command_name) loaded") (auto simp: find_None_iff)
  then have pin: "p \<in> set loaded" and pl: "lacks_command command_name p"
    by (auto simp: find_Some_iff)
  have pres: "name_resolves (pipeline_wrappers self) pipeline_name"
  proof (rule ccontr)
    assume "\<not> name_resolves (pipeline_wrappers self) pipeline_name"
    then have "pipeline_wrappers_to_run self pipeline_name = []"
      by (auto simp: name_resolves_def pipeline_wrappers_to_run_def split: option.splits)
    with load have "loaded = []" by simp
    with lacks show False by simp
  qed
  obtain merged evs0 where m: "get_merged_keyword_args kwargs extra_args = (merged, evs0)"
    by (cases "get_merged_keyword_args kwargs extra_args")
  have rc: "run_command self command_name pipeline_name deployment_name extra_args kwargs =
      (Inl (Exn RunCommandError (no_command_msg command_name (fst p))), evs0 @ evs1)"
    by (simp add: run_command_unfold [OF pres dep] m load check_command_find p)
  have "filter is_invoke evs0 = []"
    using merged_events_no_invoke [of kwargs extra_args] by (simp add: m)
  moreover have "filter is_invoke evs1 = []"
    using load_pipelines_no_invoke [of "pipeline_wrappers_to_run self pipeline_name" "[]"]
    by (simp add: load)
  ultimately show ?thesis using rc pin pl by auto
qed

theorem run_command_missing_command_witness:
  "name_resolves (deployment_wrappers example_project) None
   \<and> lacks_command ''run_process'' (''camB'', camB)
   \<and> fst (run_command example_project ''run_process'' None None None [])
       = Inl (Exn RunCommandError (no_command_msg ''run_process'' ''camB''))
   \<and> filter is_invoke (snd (run_command example_project ''run_process'' None None None [])) = []"
proof -
  have dep: "name_resolves (deployment_wrappers example_project) None"
    by (simp add: name_resolves_def)
  have load: "load_pipelines (pipeline_wrappers_to_run example_project None) []
      = (Inr [(''camA'', camA), (''camB'', camB)], [LoadPipeline ''camA'', LoadPipeline ''camB''])"
    by (simp add: pipeline_wrappers_to_run_def example_project_def)
  have lacks: "\<exists>p\<in>set [(''camA'', camA), (''camB'', camB)]. lacks_command ''run_process'' p"
    by (simp add: lacks_command_def camB_def dict_get_def)
  from run_command_missing_command [OF dep load lacks, of None "[]"] dep show ?thesis
    by (simp add: lacks_command_def camA_def camB_def dict_get_def)
qed

section \<open>\<open>run_command\<close>: the cross product of deployments and pipelines\<close>

lemma load_pipelines_ok:assumes "distinct (dict_keys ws)" "set (dict_keys ws) \<inter> set (dict_keys acc) = {}"
    "\<forall>p\<in>set ws. returns (pw_load_pipeline (snd p))"
  shows "load_pipelines ws acc =
     (Inr (acc @ map (\<lambda>p. (fst p, projr (pw_load_pipeline (snd p)))) ws),
      map (\<lambda>p. LoadPipeline (fst p)) ws)"
  using assms
proof (induction ws arbitrary: acc)
  case Nil
  then show ?case by simp
next
  case (Cons a ws)
  obtain n w where a: "a = (n, w)" by (cases a)
  from Cons.prems(3) obtain inst where inst: "pw_load_pipeline w = Inr inst"
    by (auto simp: a returns_def split: sum.splits)
  have new: "dict_set acc n inst = acc @ [(n, inst)]"
    using Cons.prems(2) by (intro length_dict_set_new) (auto simp: a dict_keys_def)
  have "load_pipelines ws (acc @ [(n, inst)]) =
     (Inr ((acc @ [(n, inst)]) @ map (\<lambda>p. (fst p, projr (pw_load_pipeline (snd p)))) ws),
      map (\<lambda>p. LoadPipeline (fst p)) ws)"
    using Cons.prems by (intro Cons.IH) (auto simp: a dict_keys_def)
  then show ?case by (simp add: a inst new)
qed

lemma run_pipelines_ok:
  assumes "distinct (dict_keys ps)" "set (dict_keys ps) \<inter> set (dict_keys acc) = {}"
    "\<forall>p\<in>set ps. returns (invoke_pair command_name kw dw (fst p) (snd p))"
  shows "run_pipelines command_name dn dw kw ps acc =
     (Inr (acc @ map (\<lambda>p. (fst p, projr (invoke_pair command_name kw dw (fst p) (snd p)))) ps),
      map (\<lambda>p. Invoke dn (fst p) command_name (dw_data_dir dw (fst p))
                  (projr (dw_load_config dw)) kw) ps)"
  using assms
proof (induction ps arbitrary: acc)
  case Nil
  then show ?case by simp
next
  case (Cons a ps)
  obtain pn inst where a: "a = (pn, inst)" by (cases a)
  from Cons.prems(3) have "returns (invoke_pair command_name kw dw pn inst)" by (simp add: a)
  then obtain cfg m res where cfg: "dw_load_config dw = Inr cfg"
    and m: "dict_get (attrs inst) command_name = Some (Method m)"
    and res: "m (dw_data_dir dw pn) cfg kw = Inr res"
    by (auto simp: invoke_pair_def returns_def split: sum.splits option.splits attr.splits)
  have ip: "invoke_pair command_name kw dw pn inst = Inr res"
    by (simp add: invoke_pair_def cfg m res)
  have new: "dict_set acc pn res = acc @ [(pn, res)]"
    using Cons.prems(2) by (intro length_dict_set_new) (auto simp: a dict_keys_def)
  have "run_pipelines command_name dn dw kw ps (acc @ [(pn, res)]) =
     (Inr ((acc @ [(pn, res)]) @
            map (\<lambda>p. (fst p, projr (invoke_pair command_name kw dw (fst p) (snd p)))) ps),
      map (\<lambda>p. Invoke dn (fst p) command_name (dw_data_dir dw (fst p))
                  (projr (dw_load_config dw)) kw) ps)"
    using Cons.prems by (intro Cons.IH) (auto simp: a dict_keys_def)
  then show ?case by (simp add: a cfg m res ip new)
qed

lemma run_deployments_ok:
  assumes "distinct (dict_keys ds)" "set (dict_keys ds) \<inter> set (dict_keys acc) = {}"
    "distinct (dict_keys ps)"
    "\<forall>d\<in>set ds. \<forall>p\<in>set ps. returns (invoke_pair command_name kw (snd d) (fst p) (snd p))"
  shows "run_deployments command_name kw ps ds acc =
     (Inr (acc @ map (\<lambda>d. (fst d,
              map (\<lambda>p. (fst p, projr (invoke_pair command_name kw (snd d) (fst p) (snd p)))) ps)) ds),
      concat (map (\<lambda>d. map (\<lambda>p. Invoke (fst d) (fst p) command_name (dw_data_dir (snd d) (fst p))
                  (projr (dw_load_config (snd d))) kw) ps) ds))"
  using assms
proof (induction ds arbitrary: acc)
  case Nil
  then show ?case by simp
next
  case (Cons a ds)
  obtain dn dw where a: "a = (dn, dw)" by (cases a)
  let ?row = "map (\<lambda>p. (fst p, projr (invoke_pair command_name kw dw (fst p) (snd p)))) ps"
  have rp: "run_pipelines command_name dn dw kw ps [] =
     (Inr ?row,
      map (\<lambda>p. Invoke dn (fst p) command_name (dw_data_dir dw (fst p))
                  (projr (dw_load_config dw)) kw) ps)"
    using run_pipelines_ok [of ps "[]" command_name kw dw dn] Cons.prems(3,4)
    by (simp add: a dict_keys_def)
  have new: "dict_set acc dn ?row = acc @ [(dn, ?row)]"
    using Cons.prems(2) by (intro length_dict_set_new) (auto simp: a dict_keys_def)
  have "run_deployments command_name kw ps ds (acc @ [(dn, ?row)]) =
     (Inr ((acc @ [(dn, ?row)]) @ map (\<lambda>d. (fst d,
              map (\<lambda>p. (fst p, projr (invoke_pair command_name kw (snd d) (fst p) (snd p)))) ps)) ds),
      concat (map (\<lambda>d. map (\<lambda>p. Invoke (fst d) (fst p) command_name (dw_data_dir (snd d) (fst p))
                  (projr (dw_load_config (snd d))) kw) ps) ds))"
    using Cons.prems by (intro Cons.IH) (auto simp: a dict_keys_def)
  then show ?case by (simp add: a rp new)
qed

lemma invoked_pairs_append: "invoked_pairs (a @ b) = invoked_pairs a @ invoked_pairs b"
  by (simp add: invoked_pairs_def map_filter_def)

lemma invoked_pairs_no_invoke: "filter is_invoke evs = [] \<Longrightarrow> invoked_pairs evs = []"
proof (induction evs)
  case Nil
  then show ?case by (simp add: invoked_pairs_def map_filter_def)
next
  case (Cons ev evs)
  then show ?case by (cases ev) (auto simp: invoked_pairs_def map_filter_def split: if_splits)
qed

lemma invoked_pairs_row:
  "invoked_pairs (map (\<lambda>p. Invoke dn (fst p) c (dir p) cfg kw) ps) = map (\<lambda>p. (dn, fst p)) ps"
  by (induction ps) (simp_all add: invoked_pairs_def map_filter_def)

lemma invoked_pairs_rows:
  "invoked_pairs (concat (map (\<lambda>d. map (\<lambda>p. Invoke (fst d) (fst p) c (dir d p) (cfg d) kw) ps) ds))
     = List.product (map fst ds) (map fst ps)"
proof (induction ds)
  case Nil
  then show ?case by (simp add: invoked_pairs_def map_filter_def)
next
  case (Cons d ds)
  have "invoked_pairs (map (\<lambda>p. Invoke (fst d) (fst p) c (dir d p) (cfg d) kw) ps)
          = map (\<lambda>p. (fst d, fst p)) ps"
    by (rule invoked_pairs_row)
  with Cons show ?case by (simp add: invoked_pairs_append comp_def)
qed

lemma filter_invoke_rows:
  "filter is_invoke (concat (map (\<lambda>d. map (\<lambda>p. Invoke (fst d) (fst p) c (dir d p) (cfg d) kw) ps) ds))
     = concat (map (\<lambda>d. map (\<lambda>p. Invoke (fst d) (fst p) c (dir d p) (cfg d) kw) ps) ds)"
  by (induction ds) (simp_all add: filter_map comp_def)

lemma length_rows:
  "length (concat (map (\<lambda>d. map (f d) ps) ds)) = length ps * length ds"
  by (induction ds) simp_all

text \<open>
  Claim C5. For a project whose pipeline and deployment registries hold each name once
  (they are dictionaries), when every pipeline loads, the command exists on every loaded
  instance and no call raises, \<open>run_command\<close> without filters returns; it has called
  the operation once for each (deployment, pipeline) pair, in deployment-major order,
  \<open>|P| * |D|\<close> calls in all; and the aggregate maps each deployment name to the mapping
  from each pipeline name to the result of that pair's call, with \<open>|P| * |D|\<close> leaves.
\<close>

theorem run_command_cross_product:
  assumes P: "pws = pipeline_wrappers self" and D: "dws = deployment_wrappers self"
    and M: "merged = fst (get_merged_keyword_args kwargs extra_args)"
    and dp: "distinct (dict_keys pws)" and dd: "distinct (dict_keys dws)"
    and loads: "\<forall>p\<in>set pws. returns (pw_load_pipeline (snd p))"
    and has: "\<forall>p\<in>set pws. \<not> lacks_command command_name (fst p, projr (pw_load_pipeline (snd p)))"
    and ok: "\<forall>d\<in>set dws. \<forall>p\<in>set pws.
               returns (invoke_pair command_name merged (snd d) (fst p)
                          (projr (pw_load_pipeline (snd p))))"
  shows "\<exists>agg evs.
           run_command self command_name None None extra_args kwargs = (Inr agg, evs)
         \<and> invoked_pairs evs = List.product (dict_keys dws) (dict_keys pws)
         \<and> distinct (invoked_pairs evs)
         \<and> length (filter is_invoke evs) = length pws * length dws
         \<and> agg = map (\<lambda>d. (fst d,
                    map (\<lambda>p. (fst p, projr (invoke_pair command_name merged (snd d) (fst p)
                                              (projr (pw_load_pipeline (snd p)))))) pws)) dws
         \<and> leaf_count agg = length pws * length dws"
proof -
  let ?loaded = "map (\<lambda>p. (fst p, projr (pw_load_pipeline (snd p)))) pws"
  let ?agg = "map (\<lambda>d. (fst d,
                    map (\<lambda>p. (fst p, projr (invoke_pair command_name merged (snd d) (fst p)
                                              (projr (pw_load_pipeline (snd p)))))) pws)) dws"
  let ?evs2 = "concat (map (\<lambda>d. map (\<lambda>p. Invoke (fst d) (fst p) command_name
                  (dw_data_dir (snd d) (fst p)) (projr (dw_load_config (snd d))) merged) ?loaded) dws)"
  obtain evs0 where m: "get_merged_keyword_args kwargs extra_args = (merged, evs0)"
    using M by (cases "get_merged_keyword_args kwargs extra_args") simp
  have e0: "filter is_invoke evs0 = []"
    using merged_events_no_invoke [of kwargs extra_args] by (simp add: m)
  have lp: "load_pipelines pws [] = (Inr ?loaded, map (\<lambda>p. LoadPipeline (fst p)) pws)"
    using load_pipelines_ok [of pws "[]"] dp loads by (simp add: dict_keys_def)
  have e1: "filter is_invoke (map (\<lambda>p. LoadPipeline (fst p)) pws) = []"
    by (simp add: filter_map comp_def)
  have "find (lacks_command command_name) ?loaded = None"
    using has by (auto simp: find_None_iff)
  then have cc: "check_command command_name ?loaded = None"
    by (simp add: check_command_find)
  have keys: "dict_keys ?loaded = dict_keys pws"
    by (simp add: dict_keys_def comp_def)
  have rd: "run_deployments command_name merged ?loaded dws [] =
      (Inr (map (\<lambda>d. (fst d, map (\<lambda>p. (fst p,
                 projr (invoke_pair command_name merged (snd d) (fst p) (snd p)))) ?loaded)) dws),
       ?evs2)"
    using run_deployments_ok [of dws "[]" ?loaded command_name merged] dd dp ok
    by (simp add: keys) (simp add: dict_keys_def)
  have agg: "map (\<lambda>d. (fst d, map (\<lambda>p. (fst p,
                 projr (invoke_pair command_name merged (snd d) (fst p) (snd p)))) ?loaded)) dws
             = ?agg"
    by (simp add: comp_def)
  have rc: "run_command self command_name None None extra_args kwargs =
      (Inr ?agg, evs0 @ map (\<lambda>p. LoadPipeline (fst p)) pws @ ?evs2)"
    using run_command_unfold [of self None None command_name extra_args kwargs]
    by (simp add: name_resolves_def pipeline_wrappers_to_run_def deployment_wrappers_to_run_def
          m P [symmetric] D [symmetric] lp cc rd agg)
  have ip: "invoked_pairs (evs0 @ map (\<lambda>p. LoadPipeline (fst p)) pws @ ?evs2)
              = List.product (dict_keys dws) (dict_keys pws)"
    using invoked_pairs_rows [of command_name "\<lambda>d p. dw_data_dir (snd d) (fst p)"
            "\<lambda>d. projr (dw_load_config (snd d))" merged ?loaded dws]
    by (simp add: invoked_pairs_append invoked_pairs_no_invoke [OF e0]
          invoked_pairs_no_invoke [OF e1] dict_keys_def comp_def)
  have di: "distinct (List.product (dict_keys dws) (dict_keys pws))"
    using dp dd by (simp add: distinct_product)
  have len: "length (filter is_invoke (evs0 @ map (\<lambda>p. LoadPipeline (fst p)) pws @ ?evs2))
               = length pws * length dws"
    using length_rows [of "\<lambda>d p. Invoke (fst d) (fst p) command_name
                  (dw_data_dir (snd d) (fst p)) (projr (dw_load_config (snd d))) merged" ?loaded dws]
    by (simp add: e0 filter_map comp_def filter_invoke_rows del: filter_concat)
  have lc: "leaf_count ?agg = length pws * length dws"
    by (simp add: leaf_count_def comp_def sum_list_triv)
  show ?thesis using rc ip di len lc by simp
qed

theorem run_command_cross_product_witness:
  "distinct (dict_keys (pipeline_wrappers example_project))
   \<and> distinct (dict_keys (deployment_wrappers example_project))
   \<and> fst (run_command example_project ''run_import'' None None (Some [''overwrite=yes'']) []) =
       Inr [(''dep1'', [(''camA'', PyPath [''deployments'', ''dep1'', ''camA'']),
                        (''camB'', PyPath [''deployments'', ''dep1'', ''camB''])]),
            (''dep2'', [(''camA'', PyPath [''deployments'', ''dep2'', ''camA'']),
                        (''camB'', PyPath [''deployments'', ''dep2'', ''camB''])])]
   \<and> invoked_pairs (snd (run_command example_project ''run_import'' None None
                             (Some [''overwrite=yes'']) []))
        = [(''dep1'', ''camA''), (''dep1'', ''camB''), (''dep2'', ''camA''), (''dep2'', ''camB'')]
   \<and> length (filter is_invoke (snd (run_command example_project ''run_import'' None None
                             (Some [''overwrite=yes'']) []))) = 4"
proof -
  let ?pws = "pipeline_wrappers example_project"
  let ?dws = "deployment_wrappers example_project"
  let ?m = "fst (get_merged_keyword_args [] (Some [''overwrite=yes'']))"
  have dp: "distinct (dict_keys ?pws)" by (simp add: example_project_def dict_keys_def)
  have dd: "distinct (dict_keys ?dws)" by (simp add: example_project_def dict_keys_def)
  have loads: "\<forall>p\<in>set ?pws. returns (pw_load_pipeline (snd p))"
    by (simp add: example_project_def returns_def)
  have has: "\<forall>p\<in>set ?pws. \<not> lacks_command ''run_import'' (fst p, projr (pw_load_pipeline (snd p)))"
    by (simp add: example_project_def lacks_command_def camA_def camB_def dict_get_def)
  have ok: "\<forall>d\<in>set ?dws. \<forall>p\<in>set ?pws.
      returns (invoke_pair ''run_import'' ?m (snd d) (fst p) (projr (pw_load_pipeline (snd p))))"
    by (simp add: example_project_def invoke_pair_def example_deployment_def camA_def camB_def
          dict_get_def echo_dir_def returns_def)
  from run_command_cross_product [OF refl refl refl dp dd loads has ok]
  obtain agg evs where
    rc: "run_command example_project ''run_import'' None None (Some [''overwrite=yes'']) []
           = (Inr agg, evs)"
    and ip: "invoked_pairs evs = List.product (dict_keys ?dws) (dict_keys ?pws)"
    and len: "length (filter is_invoke evs) = length ?pws * length ?dws"
    and agg: "agg = map (\<lambda>d. (fst d,
                    map (\<lambda>p. (fst p, projr (invoke_pair ''run_import'' ?m (snd d) (fst p)
                                              (projr (pw_load_pipeline (snd p)))))) ?pws)) ?dws"
    by blast
  have a: "agg = [(''dep1'', [(''camA'', PyPath [''deployments'', ''dep1'', ''camA'']),
                        (''camB'', PyPath [''deployments'', ''dep1'', ''camB''])]),
            (''dep2'', [(''camA'', PyPath [''deployments'', ''dep2'', ''camA'']),
                        (''camB'', PyPath [''deployments'', ''dep2'', ''camB''])])]"
    unfolding agg
    by (simp add: example_project_def invoke_pair_def example_deployment_def camA_def camB_def
          dict_get_def echo_dir_def)
  have i: "invoked_pairs evs
        = [(''dep1'', ''camA''), (''dep1'', ''camB''), (''dep2'', ''camA''), (''dep2'', ''camB'')]"
    unfolding ip by (simp add: example_project_def dict_keys_def)
  have l: "length (filter is_invoke evs) = 4"
    unfolding len by (simp add: example_project_def)
  show ?thesis using dp dd rc a i l by simp
qed

section \<open>\<open>compose\<close>, \<open>update_pipelines\<close> and \<open>save_config\<close>\<close>

lemma lookup_deployments_ok:
  "\<forall>n\<in>set names. dict_get dws n \<noteq> None \<Longrightarrow>
   lookup_deployments dws names = Inr (map (\<lambda>n. the (dict_get dws n)) names)"
  by (induction names) auto

lemma load_configs_ok:
  "\<forall>dw\<in>set ws. returns (dw_load_config dw) \<Longrightarrow>
   load_configs ws = Inr (map (\<lambda>dw. projr (dw_load_config dw)) ws)"
  by (induction ws) (auto simp: returns_def split: sum.splits)

text \<open>
  Claim C6. When the pipeline exists and loads, every named deployment exists and its
  configuration loads, \<open>compose\<close> calls the plugin's \<open>run_compose\<close> once, with the
  list of data directories and the list of configurations obtained by mapping over the
  deployment names in the order given: the i-th directory and the i-th configuration
  are those of the i-th named deployment. The value returned is the plugin's.
\<close>

theorem compose_preserves_order:
  assumes pw: "dict_get (pipeline_wrappers self) pipeline_name = Some pipeline_wrapper"
    and pl: "pw_load_pipeline pipeline_wrapper = Inr pipeline"
    and ex: "\<forall>n\<in>set deployment_names. dict_get (deployment_wrappers self) n \<noteq> None"
    and cf: "\<forall>n\<in>set deployment_names.
               returns (dw_load_config (the (dict_get (deployment_wrappers self) n)))"
    and dirs: "data_dirs = map (\<lambda>n. dw_data_dir (the (dict_get (deployment_wrappers self) n))
                                   pipeline_name) deployment_names"
    and cfgs: "configs = map (\<lambda>n. projr (dw_load_config
                                   (the (dict_get (deployment_wrappers self) n)))) deployment_names"
  shows "compose self pipeline_name deployment_names extra_args kwargs =
     (run_compose pipeline data_dirs configs (fst (get_merged_keyword_args kwargs extra_args)),
      snd (get_merged_keyword_args kwargs extra_args) @
        [LoadPipeline pipeline_name,
         ComposeCall pipeline_name data_dirs configs
           (fst (get_merged_keyword_args kwargs extra_args))])"
proof -
  let ?dws = "map (\<lambda>n. the (dict_get (deployment_wrappers self) n)) deployment_names"
  have l: "lookup_deployments (deployment_wrappers self) deployment_names = Inr ?dws"
    using ex by (rule lookup_deployments_ok)
  have "\<forall>dw\<in>set ?dws. returns (dw_load_config dw)" using cf by simp
  then have c: "load_configs ?dws = Inr (map (\<lambda>dw. projr (dw_load_config dw)) ?dws)"
    by (rule load_configs_ok)
  show ?thesis
    by (simp add: compose_def pw pl l c dirs cfgs comp_def Let_def split: prod.splits)
qed

theorem compose_preserves_order_witness:
  "dict_get (deployment_wrappers example_project) ''dep2'' \<noteq> None
   \<and> dict_get (deployment_wrappers example_project) ''dep1'' \<noteq> None
   \<and> compose example_project ''camA'' [''dep2'', ''dep1''] None [(''copy'', PyBool True)] =
       (Inr (PyInt 2),
        [LoadPipeline ''camA'',
         ComposeCall ''camA''
           [[''deployments'', ''dep2'', ''camA''], [''deployments'', ''dep1'', ''camA'']]
           [[(''site'', PyStr ''dep2'')], [(''site'', PyStr ''dep1'')]]
           [(''copy'', PyBool True)]])"
proof -
  let ?names = "[''dep2'', ''dep1'']"
  have pw: "dict_get (pipeline_wrappers example_project) ''camA''
      = Some \<lparr>pw_load_pipeline = Inr camA, pw_update = Inl (Exn OtherError ''pull failed'')\<rparr>"
    by (simp add: example_project_def dict_get_def)
  have pl: "pw_load_pipeline \<lparr>pw_load_pipeline = Inr camA,
        pw_update = Inl (Exn OtherError ''pull failed'')\<rparr> = Inr camA" by simp
  have ex: "\<forall>n\<in>set ?names. dict_get (deployment_wrappers example_project) n \<noteq> None"
    by (simp add: example_project_def dict_get_def)
  have cf: "\<forall>n\<in>set ?names.
      returns (dw_load_config (the (dict_get (deployment_wrappers example_project) n)))"
    by (simp add: example_project_def dict_get_def example_deployment_def returns_def)
  from compose_preserves_order [OF pw pl ex cf refl refl, of None "[(''copy'', PyBool True)]"] ex
  show ?thesis
    by (simp add: example_project_def dict_get_def example_deployment_def camA_def
          get_merged_keyword_args_def dict_merge_def)
qed

lemma update_attempts_loop: "update_attempts (update_loop ws) = map fst ws"
  by (induction ws rule: update_loop.induct)
     (simp_all add: update_attempts_def map_filter_def split: sum.splits)

lemma failed_update_loop:
  "filter failed_update (update_loop ws) =
     map (\<lambda>p. LogError (update_failed_msg (fst p) (projl (pw_update (snd p)))))
         (filter (\<lambda>p. \<not> returns (pw_update (snd p))) ws)"
  by (induction ws rule: update_loop.induct)
     (simp_all add: returns_def split: sum.splits)

text \<open>
  Claim C7. \<open>update_pipelines\<close> never raises; the updates it attempts are those of the
  registered pipelines, each once and in the order of the registry, whether or not earlier
  ones failed; and every failed update leaves one error record in the log.
\<close>

theorem update_pipelines_attempts_all:
  "fst (update_pipelines self) = Inr ()
   \<and> update_attempts (snd (update_pipelines self)) = dict_keys (pipeline_wrappers self)
   \<and> filter failed_update (snd (update_pipelines self)) =
       map (\<lambda>p. LogError (update_failed_msg (fst p) (projl (pw_update (snd p)))))
           (filter (\<lambda>p. \<not> returns (pw_update (snd p))) (pipeline_wrappers self))"
  by (simp add: update_pipelines_def update_attempts_loop failed_update_loop dict_keys_def)

theorem update_pipelines_attempts_all_witness:
  "update_pipelines example_project =
     (Inr (),
      [LogInfo (updating_msg ''camA''), UpdateAttempt ''camA'',
       LogError (update_failed_msg ''camA'' (Exn OtherError ''pull failed'')),
       LogInfo (updating_msg ''camB''), UpdateAttempt ''camB'', LogInfo (updated_msg ''camB'')])
   \<and> update_attempts (snd (update_pipelines example_project)) = [''camA'', ''camB'']"
  using update_pipelines_attempts_all [of example_project]
  by (simp add: update_pipelines_def example_project_def dict_keys_def)

text \<open>
  Claim C8. \<open>save_config\<close> with \<open>None\<close> or with an empty mapping does not call the
  codec and leaves the file store exactly as it was; a mapping with at least one entry is
  handed to the codec for the wrapper's configuration path.
\<close>

theorem save_config_falsy_noop:
  "save_config codec_save_config self None fs = (Inr (), fs)
   \<and> save_config codec_save_config self (Some []) fs = (Inr (), fs)
   \<and> save_config codec_save_config self (Some (kv # kvs)) fs
       = codec_save_config (config_path self) (kv # kvs) fs"
  by (simp add: save_config_def)

theorem save_config_falsy_noop_witness:
  "save_config example_codec example_wrapper None
       [([''pipelines'', ''camA'', ''pipeline.yml''], [(''a'', PyInt 1)])]
     = (Inr (), [([''pipelines'', ''camA'', ''pipeline.yml''], [(''a'', PyInt 1)])])
   \<and> save_config example_codec example_wrapper (Some [])
       [([''pipelines'', ''camA'', ''pipeline.yml''], [(''a'', PyInt 1)])]
     = (Inr (), [([''pipelines'', ''camA'', ''pipeline.yml''], [(''a'', PyInt 1)])])
   \<and> save_config example_codec example_wrapper (Some [(''b'', PyInt 2)])
       [([''pipelines'', ''camA'', ''pipeline.yml''], [(''a'', PyInt 1)])]
     = (Inr (), [([''pipelines'', ''camA'', ''pipeline.yml''], [(''b'', PyInt 2)])])"
  using save_config_falsy_noop [of example_codec example_wrapper
          "[([''pipelines'', ''camA'', ''pipeline.yml''], [(''a'', PyInt 1)])]"
          "(''b'', PyInt 2)" "[]"]
  by (simp add: example_codec_def example_wrapper_def config_path_def)

section \<open>Loading a plugin: the module search path and the cached class\<close>

lemma glob_one: "glob_pipeline_py [''pipelines'', ''camA'', ''repo''] one_plugin_file
   = [[''pipelines'', ''camA'', ''repo'', ''src'', ''cam.pipeline.py'']]"
  by (simp add: glob_pipeline_py_def one_plugin_file_def is_under_def endswith_def)

lemma stem_one: "stem [''pipelines'', ''camA'', ''repo'', ''src'', ''cam.pipeline.py''] = ''cam.pipeline''"
  by (simp add: stem_def)

text \<open>
  Claim C3 says that \<open>sys.path\<close> is the same after the load as before it on every exit,
  also when the load raises. The code inserts the repository directory, and removes it
  only after \<open>exec_module\<close> has returned. In a repository with one plugin file whose
  module raises when executed, or whose spec has no loader, both
  \<open>load_pipeline_instance\<close> and \<open>get_pipeline_class\<close> raise and leave the repository
  directory at the head of \<open>sys.path\<close>.
\<close>

theorem sys_path_left_modified_when_load_raises:
  "load_pipeline_instance raising_importer example_load_config
       [''pipelines'', ''camA'', ''repo''] [''pipelines'', ''camA'', ''pipeline.yml''] False
       (example_world one_plugin_file)
     = (Inl (Exn OtherError ''plugin module raised''),
        \<lparr>files = one_plugin_file,
         sys_path = [''/pipelines/camA/repo'', ''/usr/lib/python3''], scans = 1, execs = 1\<rparr>)
   \<and> sys_path (example_world one_plugin_file) = [''/usr/lib/python3'']
   \<and> get_pipeline_class raising_importer example_wrapper (example_world one_plugin_file)
     = (Inl (Exn OtherError ''plugin module raised''), example_wrapper,
        \<lparr>files = one_plugin_file,
         sys_path = [''/pipelines/camA/repo'', ''/usr/lib/python3''], scans = 1, execs = 1\<rparr>)
   \<and> sys_path (snd (load_pipeline_instance no_loader_importer example_load_config
       [''pipelines'', ''camA'', ''repo''] [''pipelines'', ''camA'', ''pipeline.yml''] False
       (example_world one_plugin_file)))
     = [''/pipelines/camA/repo'', ''/usr/lib/python3'']"
  by (simp add: load_pipeline_instance_def get_pipeline_class_def glob_one stem_one
        example_wrapper_def repo_dir_def example_world_def raising_importer_def
        no_loader_importer_def str_path_def)

text \<open>In general: whenever module execution raises, the inserted directory stays.\<close>

lemma load_pipeline_instance_exec_raises:
  assumes "glob_pipeline_py d (files s) = [p]"
    and "imp (stem p) (str_path p) = Some sp"
    and "spec_loader sp = Some exec_module"
    and "exec_module (str_path d # sys_path s) = Inl e"
  shows "load_pipeline_instance imp lc d cp dr s =
     (Inl e, s\<lparr>scans := scans s + 1, sys_path := str_path d # sys_path s,
              execs := execs s + 1\<rparr>)"
  using assms by (simp add: load_pipeline_instance_def)

lemma get_pipeline_class_exec_raises:
  assumes "pipeline_class self = None"
    and "glob_pipeline_py (repo_dir self) (files s) = [p]"
    and "imp (stem p) (str_path p) = Some sp"
    and "spec_loader sp = Some exec_module"
    and "exec_module (str_path (repo_dir self) # sys_path s) = Inl e"
  shows "get_pipeline_class imp self s =
     (Inl e, self, s\<lparr>scans := scans s + 1, sys_path := str_path (repo_dir self) # sys_path s,
                    execs := execs s + 1\<rparr>)"
  using assms by (simp add: get_pipeline_class_def)

text \<open>On the exits that return, the search path is as it was.\<close>

lemma get_pipeline_class_restores_on_return:
  "get_pipeline_class imp self s = (Inr r, self', s') \<Longrightarrow> sys_path s' = sys_path s"
  by (auto simp: get_pipeline_class_def Let_def
           split: if_splits option.splits sum.splits list.splits)


lemma load_pipeline_instance_restores_on_return:
  "load_pipeline_instance imp lc d cp dr s = (Inr inst, s') \<Longrightarrow> sys_path s' = sys_path s"
  by (auto simp: load_pipeline_instance_def Let_def
           split: if_splits option.splits sum.splits list.splits)

text \<open>
  Claim C4. Once a call of \<open>get_pipeline_class\<close> has returned a class, every later call
  on the wrapper, whatever the disk and the importer have become, returns that same class
  and leaves the wrapper and the world untouched: the scan counter and the execution
  counter do not move.
\<close>

theorem cached_class_is_returned:
  assumes "get_pipeline_class imp self s = (Inr (Some c), self', s')"
  shows "get_pipeline_class imp' self' t = (Inr (Some c), self', t)
         \<and> get_pipeline_class_again n imp' self' t = (replicate n (Inr (Some c)), self', t)"
proof -
  have cached: "pipeline_class self' = Some c"
    using assms
    by (auto simp: get_pipeline_class_def Let_def
             split: if_splits option.splits sum.splits list.splits)
  then have one: "\<And>t. get_pipeline_class imp' self' t = (Inr (Some c), self', t)"
    by (simp add: get_pipeline_class_def)
  have "get_pipeline_class_again n imp' self' t = (replicate n (Inr (Some c)), self', t)"
    by (induction n) (simp_all add: one)
  with one show ?thesis by simp
qed

theorem cached_class_is_returned_witness:
  "get_pipeline_class good_importer example_wrapper (example_world one_plugin_file)
     = (Inr (Some (PipelineSubclass ''CamA'')),
        example_wrapper\<lparr>pipeline_class := Some (PipelineSubclass ''CamA'')\<rparr>,
        \<lparr>files = one_plugin_file, sys_path = [''/usr/lib/python3''], scans = 1, execs = 1\<rparr>)
   \<and> get_pipeline_class raising_importer
        (example_wrapper\<lparr>pipeline_class := Some (PipelineSubclass ''CamA'')\<rparr>)
        (example_world two_plugin_files)
     = (Inr (Some (PipelineSubclass ''CamA'')),
        example_wrapper\<lparr>pipeline_class := Some (PipelineSubclass ''CamA'')\<rparr>,
        example_world two_plugin_files)"
proof -
  have first: "get_pipeline_class good_importer example_wrapper (example_world one_plugin_file)
     = (Inr (Some (PipelineSubclass ''CamA'')),
        example_wrapper\<lparr>pipeline_class := Some (PipelineSubclass ''CamA'')\<rparr>,
        \<lparr>files = one_plugin_file, sys_path = [''/usr/lib/python3''], scans = 1, execs = 1\<rparr>)"
    by (simp add: get_pipeline_class_def glob_one stem_one example_wrapper_def repo_dir_def
          example_world_def good_importer_def str_path_def)
  from cached_class_is_returned [OF first, of raising_importer "example_world two_plugin_files" 0]
    first
  show ?thesis by simp
qed

section \<open>Discovery: no plugin file, or several\<close>

text \<open>
  Claim C2 says that finding no plugin file and finding several are reported as two
  different kinds of error. In the code both are \<open>FileNotFoundError\<close>: for a repository
  with no matching file and for one with two, \<open>load_pipeline_instance\<close> and
  \<open>get_pipeline_class\<close> raise errors of the same class.
\<close>

theorem discovery_errors_share_one_kind:
  "raised_kind (fst (load_pipeline_instance good_importer example_load_config
       [''pipelines'', ''camA'', ''repo''] [''pipelines'', ''camA'', ''pipeline.yml''] False
       (example_world []))) = Some FileNotFoundError
   \<and> raised_kind (fst (load_pipeline_instance good_importer example_load_config
       [''pipelines'', ''camA'', ''repo''] [''pipelines'', ''camA'', ''pipeline.yml''] False
       (example_world two_plugin_files))) = Some FileNotFoundError
   \<and> raised_kind (fst (get_pipeline_class good_importer example_wrapper (example_world [])))
       = Some FileNotFoundError
   \<and> raised_kind (fst (get_pipeline_class good_importer example_wrapper
                          (example_world two_plugin_files)))
       = Some FileNotFoundError"
  by (simp add: load_pipeline_instance_def get_pipeline_class_def glob_pipeline_py_def
        two_plugin_files_def is_under_def endswith_def example_world_def example_wrapper_def
        repo_dir_def raised_kind_def Let_def)

lemma discovery_messages_differ: "no_impl_msg d \<noteq> multiple_impl_msg d' ps"
  by (simp add: no_impl_msg_def multiple_impl_msg_def)

text \<open>
  Claim C2, as the code has it. Whenever discovery does not find exactly one matching file,
  \<open>load_pipeline_instance\<close> and an uncached \<open>get_pipeline_class\<close> raise
  \<open>FileNotFoundError\<close>; the message is the "No pipeline implementation found" one when
  nothing matched and the "Multiple pipeline implementations found" one, listing the
  matches, otherwise; and the two messages are never equal.
\<close>

theorem discovery_errors_differ_by_message:
  assumes "length (glob_pipeline_py d (files s)) \<noteq> 1"
    and "pipeline_class self = None" and "repo_dir self = d"
  shows "fst (load_pipeline_instance imp lc d cp dr s)
           = Inl (Exn FileNotFoundError
                   (if glob_pipeline_py d (files s) = [] then no_impl_msg d
                    else multiple_impl_msg d (glob_pipeline_py d (files s))))
       \<and> fst (get_pipeline_class imp self s)
           = Inl (Exn FileNotFoundError
                   (if glob_pipeline_py d (files s) = [] then no_impl_msg d
                    else multiple_impl_msg d (glob_pipeline_py d (files s))))
       \<and> no_impl_msg d \<noteq> multiple_impl_msg d (glob_pipeline_py d (files s))"
proof -
  have "glob_pipeline_py d (files s) = [] \<or> 1 < length (glob_pipeline_py d (files s))"
    using assms(1) by (cases "glob_pipeline_py d (files s)") auto
  then show ?thesis
    using assms(2,3)
    by (auto simp: load_pipeline_instance_def get_pipeline_class_def Let_def
          discovery_messages_differ)
qed

theorem discovery_errors_differ_by_message_witness:
  "length (glob_pipeline_py (repo_dir example_wrapper) (files (example_world []))) = 0
   \<and> length (glob_pipeline_py (repo_dir example_wrapper) (files (example_world two_plugin_files))) = 2
   \<and> fst (get_pipeline_class good_importer example_wrapper (example_world []))
        = Inl (Exn FileNotFoundError (no_impl_msg [''pipelines'', ''camA'', ''repo'']))
   \<and> fst (get_pipeline_class good_importer example_wrapper (example_world two_plugin_files))
        = Inl (Exn FileNotFoundError
                (multiple_impl_msg [''pipelines'', ''camA'', ''repo''] two_plugin_files))"
proof -
  let ?d = "[''pipelines'', ''camA'', ''repo'']"
  have r: "repo_dir example_wrapper = ?d"
    by (simp add: repo_dir_def example_wrapper_def)
  have g0: "glob_pipeline_py ?d (files (example_world [])) = []"
    by (simp add: glob_pipeline_py_def example_world_def)
  have g2: "glob_pipeline_py ?d (files (example_world two_plugin_files)) = two_plugin_files"
    by (simp add: glob_pipeline_py_def example_world_def two_plugin_files_def is_under_def
          endswith_def)
  have l2: "length two_plugin_files = 2" by (simp add: two_plugin_files_def)
  have n0: "length (glob_pipeline_py ?d (files (example_world []))) \<noteq> 1"
    by (simp add: g0)
  have n2: "length (glob_pipeline_py ?d (files (example_world two_plugin_files))) \<noteq> 1"
    by (simp add: g2 l2)
  have u: "pipeline_class example_wrapper = None" by (simp add: example_wrapper_def)
  have ne: "two_plugin_files \<noteq> []" by (simp add: two_plugin_files_def)
  have a: "fst (get_pipeline_class good_importer example_wrapper (example_world []))
        = Inl (Exn FileNotFoundError (no_impl_msg ?d))"
    using discovery_errors_differ_by_message [OF n0 u r, of good_importer] by (simp add: g0)
  have b: "fst (get_pipeline_class good_importer example_wrapper (example_world two_plugin_files))
        = Inl (Exn FileNotFoundError (multiple_impl_msg ?d two_plugin_files))"
    using discovery_errors_differ_by_message [OF n2 u r, of good_importer] by (simp add: g2 ne)
  show ?thesis using a b by (simp add: r g0 g2 l2)
qed

end
